theory Spec2Isabelle
  imports Complex_Main
begin

section \<open>Values held by the store\<close>

text \<open>
  The module keeps one dictionary \<^verbatim>\<open>_memory\<close>, read with \<^verbatim>\<open>json.load\<close> and written
  with \<^verbatim>\<open>json.dump\<close>. Its values are therefore the values of Python's \<^verbatim>\<open>json\<close>
  module: \<^verbatim>\<open>None\<close>, booleans, integers, floats, strings, lists and dictionaries with
  string keys. A dictionary is an association list in insertion order; a lookup takes the
  first pair of a key (a Python dictionary has one pair per key). A float is
  represented by the number it denotes: the program looks at a float only to test whether
  it is zero.
\<close>

datatype json =
    JNull
  | JBool bool
  | JInt int
  | JFloat real
  | JStr string
  | JList "json list"
  | JObj "(string \<times> json) list"

type_synonym store = "string \<rightharpoonup> json"

text \<open>Truth value of a Python object, as \<^verbatim>\<open>if feeder_data:\<close> tests it.\<close>

fun truthy :: "json \<Rightarrow> bool" where
  "truthy JNull = False"
| "truthy (JBool b) = b"
| "truthy (JInt i) = (i \<noteq> 0)"
| "truthy (JFloat x) = (x \<noteq> 0)"
| "truthy (JStr s) = (s \<noteq> [])"
| "truthy (JList xs) = (xs \<noteq> [])"
| "truthy (JObj kvs) = (kvs \<noteq> [])"

text \<open>\<^verbatim>\<open>d.get(k)\<close> on the store: \<^verbatim>\<open>None\<close> for a missing key, the value otherwise.\<close>

definition dict_get :: "store \<Rightarrow> string \<Rightarrow> json" where
  "dict_get m k = (case m k of None \<Rightarrow> JNull | Some v \<Rightarrow> v)"

text \<open>The exceptions that the registry operations can let escape.\<close>

datatype exn = KeyError string | TypeError | AttributeError

text \<open>
  \<^verbatim>\<open>for x in v\<close>: a list yields its elements, a string its characters (each a string of
  length one), a dictionary its keys; the other values are not iterable.
\<close>

fun py_iter :: "json \<Rightarrow> exn + json list" where
  "py_iter (JList xs) = Inr xs"
| "py_iter (JStr s) = Inr (map (\<lambda>c. JStr [c]) s)"
| "py_iter (JObj kvs) = Inr (map (\<lambda>kv. JStr (fst kv)) kvs)"
| "py_iter v = Inl TypeError"

text \<open>
  The text that an f-string puts in place of \<^verbatim>\<open>{x}\<close>: a string stands for itself. How
  Python prints the other values (numbers, containers) is not part of this program; it
  is the parameter \<open>py_str\<close> of the one operation that may format such a value.
\<close>

definition format_value :: "(json \<Rightarrow> string) \<Rightarrow> json \<Rightarrow> string" where
  "format_value py_str v = (case v of JStr s \<Rightarrow> s | _ \<Rightarrow> py_str v)"

section \<open>The feeder entity and its codec\<close>

record feeder =
  feeder_id :: json
  name :: json
  location :: json
  configuration :: json

text \<open>\<^verbatim>\<open>Feeder.to_dict\<close>: the dictionary literal with the four fields, in this order.\<close>

definition to_dict :: "feeder \<Rightarrow> json" where
  "to_dict f = JObj [(''feeder_id'', feeder_id f), (''name'', name f),
                     (''location'', location f), (''configuration'', configuration f)]"

text \<open>
  \<^verbatim>\<open>Feeder.from_dict\<close>: \<^verbatim>\<open>data["feeder_id"]\<close>, \<^verbatim>\<open>data["name"]\<close> and
  \<^verbatim>\<open>data["location"]\<close> are evaluated in this order and raise \<^verbatim>\<open>KeyError\<close> on a
  dictionary without the key; \<^verbatim>\<open>data.get("configuration")\<close> gives \<^verbatim>\<open>None\<close> instead.
  Subscripting a value that is not a dictionary with a string raises \<^verbatim>\<open>TypeError\<close>.
\<close>

fun from_dict :: "json \<Rightarrow> exn + feeder" where
  "from_dict (JObj kvs) =
     (case map_of kvs ''feeder_id'' of
        None \<Rightarrow> Inl (KeyError ''feeder_id'')
      | Some i \<Rightarrow>
          (case map_of kvs ''name'' of
             None \<Rightarrow> Inl (KeyError ''name'')
           | Some n \<Rightarrow>
               (case map_of kvs ''location'' of
                  None \<Rightarrow> Inl (KeyError ''location'')
                | Some l \<Rightarrow>
                    Inr \<lparr>feeder_id = i, name = n, location = l,
                         configuration =
                           (case map_of kvs ''configuration'' of
                              None \<Rightarrow> JNull | Some c \<Rightarrow> c)\<rparr>)))"
| "from_dict v = Inl TypeError"

section \<open>The store and its file\<close>

text \<open>
  The state of the module: the dictionary \<^verbatim>\<open>_memory\<close>, and the sequence of snapshots
  that \<^verbatim>\<open>_save_memory\<close> has handed to \<^verbatim>\<open>json.dump\<close> so far (oldest first).
  \<^verbatim>\<open>_save_memory\<close> catches every exception of the write, so it always returns and
  never changes \<^verbatim>\<open>_memory\<close>.
\<close>

record agent_state =
  memory :: store
  file_dumps :: "store list"

definition save_memory :: "agent_state \<Rightarrow> agent_state" where
  "save_memory st = st\<lparr>file_dumps := file_dumps st @ [memory st]\<rparr>"

text \<open>The state after \<^verbatim>\<open>_load_memory\<close> found no file: an empty dictionary.\<close>

definition empty_state :: agent_state where
  "empty_state = \<lparr>memory = Map.empty, file_dumps = []\<rparr>"

definition get_feeder_memory_key :: "string \<Rightarrow> string" where
  "get_feeder_memory_key fid = ''feeder:'' @ fid"

definition get_all_feeders_key :: string where
  "get_all_feeders_key = ''all_feeders''"

section \<open>Results of the operations\<close>

text \<open>
  Every operation returns one of two dictionary literals:
  \<^verbatim>\<open>{"status": "success", "report": r}\<close> or
  \<^verbatim>\<open>{"status": "error", "error_message": m}\<close>.
\<close>

definition success_result :: "json \<Rightarrow> json" where
  "success_result r = JObj [(''status'', JStr ''success''), (''report'', r)]"

definition error_result :: "string \<Rightarrow> json" where
  "error_result m = JObj [(''status'', JStr ''error''), (''error_message'', JStr m)]"

definition already_exists_message :: "string \<Rightarrow> string" where
  "already_exists_message fid =
     ''Feeder ID '' @ [CHR 0x27] @ fid @ [CHR 0x27] @ '' already exists.''"

definition not_found_message :: "string \<Rightarrow> string" where
  "not_found_message fid =
     ''Feeder ID '' @ [CHR 0x27] @ fid @ [CHR 0x27] @ '' not found.''"

section \<open>The registry operations\<close>

text \<open>
  An operation maps the state to an outcome and the state it leaves: the outcome is
  \<open>Inr\<close> of the returned dictionary, or \<open>Inl\<close> of the exception that escapes.
\<close>

type_synonym outcome = "exn + json"

text \<open>
  \<^verbatim>\<open>register_feeder\<close>. The record is written and saved first; then the index is read
  (\<^verbatim>\<open>None\<close> replaced by a new list), the id appended, the index stored and saved.
  \<^verbatim>\<open>append\<close> exists on lists only: on any other index value \<^verbatim>\<open>AttributeError\<close>
  escapes after the record has been written.
\<close>

definition register_feeder ::
    "string \<Rightarrow> string \<Rightarrow> string \<Rightarrow> json \<Rightarrow> agent_state \<Rightarrow> outcome \<times> agent_state" where
  "register_feeder fid feeder_name feeder_location config st =
     (let memory_key = get_feeder_memory_key fid in
      if memory_key \<in> dom (memory st) then
        (Inr (error_result (already_exists_message fid)), st)
      else
        let f = \<lparr>feeder_id = JStr fid, name = JStr feeder_name,
                  location = JStr feeder_location, configuration = config\<rparr>;
            st1 = save_memory (st\<lparr>memory := (memory st)(memory_key \<mapsto> to_dict f)\<rparr>);
            all_feeders_key = get_all_feeders_key;
            all_feeder_ids = dict_get (memory st1) all_feeders_key;
            all_feeder_ids = (if all_feeder_ids = JNull then JList [] else all_feeder_ids)
        in case all_feeder_ids of
             JList ids \<Rightarrow>
               (Inr (success_result (to_dict f)),
                save_memory
                  (st1\<lparr>memory := (memory st1)(all_feeders_key \<mapsto> JList (ids @ [JStr fid]))\<rparr>))
           | _ \<Rightarrow> (Inl AttributeError, st1))"

text \<open>
  The loop of \<^verbatim>\<open>get_registered_feeders\<close>, with the list \<^verbatim>\<open>feeders\<close> built so far as
  accumulator. An exception of \<^verbatim>\<open>from_dict\<close> ends the loop and escapes.
\<close>

fun feeders_loop :: "(json \<Rightarrow> string) \<Rightarrow> store \<Rightarrow> json list \<Rightarrow> json list \<Rightarrow> exn + json list" where
  "feeders_loop py_str m [] feeders = Inr feeders"
| "feeders_loop py_str m (x # rest) feeders =
     (let memory_key = get_feeder_memory_key (format_value py_str x);
          feeder_data = dict_get m memory_key
      in if truthy feeder_data then
           (case from_dict feeder_data of
              Inl e \<Rightarrow> Inl e
            | Inr f \<Rightarrow> feeders_loop py_str m rest (feeders @ [to_dict f]))
         else feeders_loop py_str m rest feeders)"

definition get_registered_feeders :: "(json \<Rightarrow> string) \<Rightarrow> agent_state \<Rightarrow> outcome \<times> agent_state" where
  "get_registered_feeders py_str st =
     (let all_feeder_ids = dict_get (memory st) get_all_feeders_key in
      if all_feeder_ids = JNull then (Inr (success_result (JList [])), st)
      else
        (case py_iter all_feeder_ids of
           Inl e \<Rightarrow> (Inl e, st)
         | Inr ids \<Rightarrow>
             (case feeders_loop py_str (memory st) ids [] of
                Inl e \<Rightarrow> (Inl e, st)
              | Inr feeders \<Rightarrow> (Inr (success_result (JList feeders)), st))))"

definition get_feeder_health :: "string \<Rightarrow> agent_state \<Rightarrow> outcome \<times> agent_state" where
  "get_feeder_health fid st =
     (let memory_key = get_feeder_memory_key fid in
      if memory_key \<notin> dom (memory st) then
        (Inr (error_result (not_found_message fid)), st)
      else (Inr (success_result (JStr ''Operational and healthy.'')), st))"

definition get_feeder_alerts :: "string \<Rightarrow> agent_state \<Rightarrow> outcome \<times> agent_state" where
  "get_feeder_alerts fid st =
     (let memory_key = get_feeder_memory_key fid in
      if memory_key \<notin> dom (memory st) then
        (Inr (error_result (not_found_message fid)), st)
      else
        let alerts_key = ''alerts:'' @ fid;
            alerts = dict_get (memory st) alerts_key;
            alerts = (if alerts = JNull then JList [] else alerts)
        in (Inr (success_result alerts), st))"

section \<open>Histories of the registry\<close>

text \<open>
  The states that the four registry operations build from the empty store, called in any
  order with any arguments. A call that lets an exception escape still leaves a state.
\<close>

inductive reachable :: "agent_state \<Rightarrow> bool" where
  start: "reachable empty_state"
| after_register: "reachable st \<Longrightarrow> reachable (snd (register_feeder fid n l c st))"
| after_list: "reachable st \<Longrightarrow> reachable (snd (get_registered_feeders py_str st))"
| after_health: "reachable st \<Longrightarrow> reachable (snd (get_feeder_health fid st))"
| after_alerts: "reachable st \<Longrightarrow> reachable (snd (get_feeder_alerts fid st))"

section \<open>Vocabulary of the properties\<close>

text \<open>The value that the listing reads for an entry \<open>x\<close> of the index.\<close>

definition record_of :: "(json \<Rightarrow> string) \<Rightarrow> store \<Rightarrow> json \<Rightarrow> json" where
  "record_of py_str m x = dict_get m (get_feeder_memory_key (format_value py_str x))"

text \<open>A dictionary that has the keys \<^verbatim>\<open>feeder_id\<close>, \<^verbatim>\<open>name\<close> and \<^verbatim>\<open>location\<close>.\<close>

definition has_feeder_fields :: "json \<Rightarrow> bool" where
  "has_feeder_fields v =
     (case v of
        JObj kvs \<Rightarrow> ''feeder_id'' \<in> fst ` set kvs \<and> ''name'' \<in> fst ` set kvs \<and>
                    ''location'' \<in> fst ` set kvs
      | _ \<Rightarrow> False)"

text \<open>
  Every entry of the index has a record that is missing or empty (not truthy), or that
  has the three mandatory fields.
\<close>

definition entries_ok :: "(json \<Rightarrow> string) \<Rightarrow> store \<Rightarrow> json list \<Rightarrow> bool" where
  "entries_ok py_str m ids =
     list_all (\<lambda>x. \<not> truthy (record_of py_str m x) \<or> has_feeder_fields (record_of py_str m x)) ids"

text \<open>
  The entries that the listing walks through: none when \<^verbatim>\<open>all_feeders\<close> is missing or
  \<^verbatim>\<open>null\<close>, otherwise the iteration of the stored value.
\<close>

definition index_entries :: "store \<Rightarrow> exn + json list" where
  "index_entries m =
     (if dict_get m get_all_feeders_key = JNull then Inr []
      else py_iter (dict_get m get_all_feeders_key))"

text \<open>
  The four fields of a stored record, as a record in the layout of \<^verbatim>\<open>to_dict\<close>; a
  field that the stored record lacks is \<^verbatim>\<open>None\<close>.
\<close>

definition field_or_none :: "(string \<times> json) list \<Rightarrow> string \<Rightarrow> json" where
  "field_or_none kvs k = (case map_of kvs k of None \<Rightarrow> JNull | Some v \<Rightarrow> v)"

definition four_fields :: "json \<Rightarrow> json" where
  "four_fields v =
     (case v of
        JObj kvs \<Rightarrow>
          JObj [(''feeder_id'', field_or_none kvs ''feeder_id''), (''name'', field_or_none kvs ''name''),
                (''location'', field_or_none kvs ''location''),
                (''configuration'', field_or_none kvs ''configuration'')]
      | _ \<Rightarrow> JNull)"

text \<open>
  The report as the specification words it: the entries of the index in order, those with
  an existing \<^verbatim>\<open>feeder:<id>\<close> record only, each replaced by the stored record.
\<close>

definition stored_records :: "(json \<Rightarrow> string) \<Rightarrow> store \<Rightarrow> json list \<Rightarrow> json list" where
  "stored_records py_str m ids =
     map (record_of py_str m)
       (filter (\<lambda>x. get_feeder_memory_key (format_value py_str x) \<in> dom m) ids)"

text \<open>The report that the code builds on well-formed entries.\<close>

definition listed_records :: "(json \<Rightarrow> string) \<Rightarrow> store \<Rightarrow> json list \<Rightarrow> json list" where
  "listed_records py_str m ids =
     map (\<lambda>x. four_fields (record_of py_str m x)) (filter (\<lambda>x. truthy (record_of py_str m x)) ids)"

text \<open>
  The list that \<^verbatim>\<open>register_feeder\<close> appends to: a new list when \<^verbatim>\<open>all_feeders\<close> is
  missing or \<^verbatim>\<open>null\<close>, the stored list otherwise; there is none when the stored value
  is not a list.
\<close>

definition index_list :: "store \<Rightarrow> json list option" where
  "index_list m =
     (case dict_get m get_all_feeders_key of
        JNull \<Rightarrow> Some [] | JList ids \<Rightarrow> Some ids | _ \<Rightarrow> None)"

text \<open>
  The shape of a store that only the registry operations have written: the index, if
  there is one, is a list of distinct id strings, each with the record of its
  registration.
\<close>

definition registry_inv :: "agent_state \<Rightarrow> bool" where
  "registry_inv st =
     (\<exists>ids. (memory st get_all_feeders_key = None \<and> ids = [] \<or>
             memory st get_all_feeders_key = Some (JList (map JStr ids))) \<and>
            distinct ids \<and>
            (\<forall>i \<in> set ids. \<exists>n l c.
               memory st (get_feeder_memory_key i) =
                 Some (to_dict \<lparr>feeder_id = JStr i, name = JStr n, location = JStr l,
                                configuration = c\<rparr>)))"

section \<open>Keys\<close>

text \<open>The key of a feeder record is never the key of the index, and determines the id.\<close>

lemma key_neq_all [simp]: "get_feeder_memory_key fid \<noteq> get_all_feeders_key"
  by (simp add: get_feeder_memory_key_def get_all_feeders_key_def)

lemma all_neq_key [simp]: "get_all_feeders_key \<noteq> get_feeder_memory_key fid"
  by (simp add: get_feeder_memory_key_def get_all_feeders_key_def)

lemma key_inj [simp]: "(get_feeder_memory_key a = get_feeder_memory_key b) = (a = b)"
  by (simp add: get_feeder_memory_key_def)

text \<open>The definitions that a run on a concrete store unfolds.\<close>

lemmas eval_defs =
  register_feeder_def get_registered_feeders_def get_feeder_memory_key_def get_all_feeders_key_def
  save_memory_def dict_get_def to_dict_def format_value_def Let_def empty_state_def
  success_result_def error_result_def record_of_def entries_ok_def has_feeder_fields_def
  index_entries_def index_list_def listed_records_def four_fields_def
  field_or_none_def feeders_loop.simps(2)

section \<open>The codec\<close>

lemma from_dict_to_dict: "from_dict (to_dict f) = Inr f"
  by (cases f) (simp add: to_dict_def)

lemma from_dict_missing:
  assumes "k \<in> {''feeder_id'', ''name'', ''location''}" and "map_of kvs k = None"
  shows "\<exists>k'. k' \<in> {''feeder_id'', ''name'', ''location''} \<and> map_of kvs k' = None \<and>
              from_dict (JObj kvs) = Inl (KeyError k')"
  using assms by (auto split: option.splits)

lemma from_dict_present:
  assumes "map_of kvs ''feeder_id'' = Some i" and "map_of kvs ''name'' = Some n"
    and "map_of kvs ''location'' = Some l"
  shows "from_dict (JObj kvs) =
           Inr \<lparr>feeder_id = i, name = n, location = l,
                configuration = (case map_of kvs ''configuration'' of None \<Rightarrow> JNull | Some c \<Rightarrow> c)\<rparr>"
  using assms by simp

text \<open>
  C7. \<^verbatim>\<open>from_dict\<close> on a dictionary that lacks one of \<^verbatim>\<open>feeder_id\<close>, \<^verbatim>\<open>name\<close>,
  \<^verbatim>\<open>location\<close> raises \<^verbatim>\<open>KeyError\<close> (for a key among the three that is missing);
  on a dictionary with the three keys and no \<^verbatim>\<open>configuration\<close> it returns a feeder
  whose configuration is \<^verbatim>\<open>None\<close>; and \<^verbatim>\<open>from_dict\<close> after \<^verbatim>\<open>to_dict\<close> gives the
  feeder back.
\<close>

theorem from_dict_contract:
  "(k \<in> {''feeder_id'', ''name'', ''location''} \<and> k \<notin> fst ` set kvs \<longrightarrow>
      (\<exists>k'. k' \<in> {''feeder_id'', ''name'', ''location''} \<and> k' \<notin> fst ` set kvs \<and>
            from_dict (JObj kvs) = Inl (KeyError k'))) \<and>
   ({''feeder_id'', ''name'', ''location''} \<subseteq> fst ` set kvs \<and> ''configuration'' \<notin> fst ` set kvs \<longrightarrow>
      (\<exists>f. from_dict (JObj kvs) = Inr f \<and> configuration f = JNull)) \<and>
   from_dict (to_dict f) = Inr f"
proof (intro conjI impI)
  assume "k \<in> {''feeder_id'', ''name'', ''location''} \<and> k \<notin> fst ` set kvs"
  then show "\<exists>k'. k' \<in> {''feeder_id'', ''name'', ''location''} \<and> k' \<notin> fst ` set kvs \<and>
            from_dict (JObj kvs) = Inl (KeyError k')"
    using from_dict_missing [of k kvs] by (simp add: map_of_eq_None_iff)
next
  assume a: "{''feeder_id'', ''name'', ''location''} \<subseteq> fst ` set kvs \<and> ''configuration'' \<notin> fst ` set kvs"
  then obtain i n l where "map_of kvs ''feeder_id'' = Some i" "map_of kvs ''name'' = Some n"
      "map_of kvs ''location'' = Some l"
    by (metis insert_subset map_of_eq_None_iff not_Some_eq)
  moreover from a have "map_of kvs ''configuration'' = None"
    by (simp add: map_of_eq_None_iff)
  ultimately show "\<exists>f. from_dict (JObj kvs) = Inr f \<and> configuration f = JNull"
    by (simp add: from_dict_present)
next
  show "from_dict (to_dict f) = Inr f" by (rule from_dict_to_dict)
qed

theorem from_dict_contract_witness:
  "''name'' \<in> {''feeder_id'', ''name'', ''location''} \<and>
   ''name'' \<notin> fst ` set [(''feeder_id'', JStr ''f1''), (''location'', JStr ''Loc A'')] \<and>
   from_dict (JObj [(''feeder_id'', JStr ''f1''), (''location'', JStr ''Loc A'')]) = Inl (KeyError ''name'') \<and>
   {''feeder_id'', ''name'', ''location''}
     \<subseteq> fst ` set [(''location'', JStr ''Loc A''), (''name'', JStr ''Feeder One''), (''feeder_id'', JStr ''f1'')] \<and>
   ''configuration'' \<notin> fst ` set [(''location'', JStr ''Loc A''), (''name'', JStr ''Feeder One''), (''feeder_id'', JStr ''f1'')] \<and>
   from_dict (JObj [(''location'', JStr ''Loc A''), (''name'', JStr ''Feeder One''), (''feeder_id'', JStr ''f1'')])
     = Inr \<lparr>feeder_id = JStr ''f1'', name = JStr ''Feeder One'', location = JStr ''Loc A'', configuration = JNull\<rparr> \<and>
   from_dict (to_dict \<lparr>feeder_id = JStr ''f1'', name = JStr ''Feeder One'', location = JStr ''Loc A'',
                       configuration = JObj [(''rate'', JInt 5)]\<rparr>)
     = Inr \<lparr>feeder_id = JStr ''f1'', name = JStr ''Feeder One'', location = JStr ''Loc A'',
           configuration = JObj [(''rate'', JInt 5)]\<rparr>"
  using from_dict_contract [of "''name''" "[(''feeder_id'', JStr ''f1''), (''location'', JStr ''Loc A'')]"
      "\<lparr>feeder_id = JStr ''f1'', name = JStr ''Feeder One'', location = JStr ''Loc A'',
                       configuration = JObj [(''rate'', JInt 5)]\<rparr>"]
    from_dict_contract [of "''name''" "[(''location'', JStr ''Loc A''), (''name'', JStr ''Feeder One''), (''feeder_id'', JStr ''f1'')]"
      "\<lparr>feeder_id = JStr ''f1'', name = JStr ''Feeder One'', location = JStr ''Loc A'',
                       configuration = JObj [(''rate'', JInt 5)]\<rparr>"]
  by simp

text \<open>A record with the three mandatory fields is read, and written back as its four fields.\<close>

lemma has_fields_truthy: "has_feeder_fields v \<Longrightarrow> truthy v"
  by (cases v) (auto simp: has_feeder_fields_def)

lemma has_fields_from_dict:
  "has_feeder_fields v \<Longrightarrow> \<exists>f. from_dict v = Inr f \<and> to_dict f = four_fields v"
  by (cases v) (auto simp: has_feeder_fields_def four_fields_def field_or_none_def to_dict_def
      map_of_eq_None_iff split: option.splits)



lemma four_fields_to_dict: "four_fields (to_dict f) = to_dict f"
  by (simp add: four_fields_def to_dict_def field_or_none_def)

section \<open>Lookups of an unregistered feeder\<close>



section \<open>The loop of the listing\<close>

text \<open>One turn of the loop, in terms of the record that it reads.\<close>

lemma feeders_loop_step:
  "feeders_loop py_str m (x # rest) feeders =
     (if truthy (record_of py_str m x) then
        (case from_dict (record_of py_str m x) of
           Inl e \<Rightarrow> Inl e
         | Inr f \<Rightarrow> feeders_loop py_str m rest (feeders @ [to_dict f]))
      else feeders_loop py_str m rest feeders)"
  by (simp add: record_of_def Let_def)

declare feeders_loop.simps(2) [simp del]

text \<open>
  On well-formed entries the loop returns, and appends the four fields of every truthy
  record in the order of the entries; and it returns on such entries only.
\<close>

lemma feeders_loop_ok:
  "entries_ok py_str m ids \<Longrightarrow>
     feeders_loop py_str m ids feeders = Inr (feeders @ listed_records py_str m ids)"
proof (induction ids arbitrary: feeders)
  case Nil
  then show ?case by (simp add: listed_records_def)
next
  case (Cons x ids)
  from Cons.prems have rest: "entries_ok py_str m ids"
    and here: "\<not> truthy (record_of py_str m x) \<or> has_feeder_fields (record_of py_str m x)"
    by (simp_all add: entries_ok_def)
  show ?case
  proof (cases "truthy (record_of py_str m x)")
    case False
    then show ?thesis
      using Cons.IH [OF rest] by (simp add: feeders_loop_step listed_records_def)
  next
    case True
    with here obtain f where "from_dict (record_of py_str m x) = Inr f"
        "to_dict f = four_fields (record_of py_str m x)"
      using has_fields_from_dict by blast
    with True show ?thesis
      using Cons.IH [OF rest] by (simp add: feeders_loop_step listed_records_def)
  qed
qed


text \<open>An entry without a truthy record can be dropped; the index itself is not read.\<close>

lemma feeders_loop_skip:
  "\<not> truthy (record_of py_str m x) \<Longrightarrow>
     feeders_loop py_str m (removeAll x ids) feeders = feeders_loop py_str m ids feeders"
proof (induction ids arbitrary: feeders)
  case Nil
  then show ?case by simp
next
  case (Cons y ids)
  then show ?case
    by (cases "y = x") (simp_all add: feeders_loop_step split: sum.splits)
qed

lemma record_of_index_update [simp]:
  "record_of py_str (m(get_all_feeders_key \<mapsto> v)) x = record_of py_str m x"
  by (simp add: record_of_def dict_get_def)

lemma feeders_loop_index_update:
  "feeders_loop py_str (m(get_all_feeders_key \<mapsto> v)) ids feeders = feeders_loop py_str m ids feeders"
  by (induction ids arbitrary: feeders) (simp_all add: feeders_loop_step split: sum.splits)

text \<open>The listing, as the loop run on the entries of the index.\<close>

lemma get_registered_feeders_eq:
  "get_registered_feeders py_str st =
     (case index_entries (memory st) of
        Inl e \<Rightarrow> (Inl e, st)
      | Inr ids \<Rightarrow>
          (case feeders_loop py_str (memory st) ids [] of
             Inl e \<Rightarrow> (Inl e, st)
           | Inr feeders \<Rightarrow> (Inr (success_result (JList feeders)), st)))"
  by (simp add: get_registered_feeders_def index_entries_def Let_def)

lemma index_list_entries: "index_list m = Some ids \<Longrightarrow> index_entries m = Inr ids"
  by (auto simp: index_list_def index_entries_def split: json.splits)

lemma listing_ok:
  assumes "index_entries (memory st) = Inr ids" and "entries_ok py_str (memory st) ids"
  shows "get_registered_feeders py_str st =
           (Inr (success_result (JList (listed_records py_str (memory st) ids))), st)"
  using assms by (simp add: get_registered_feeders_eq feeders_loop_ok)



section \<open>The read operations leave the state alone\<close>

lemma health_state: "snd (get_feeder_health fid st) = st"
  by (simp add: get_feeder_health_def)

lemma alerts_state: "snd (get_feeder_alerts fid st) = st"
  by (simp add: get_feeder_alerts_def Let_def)

lemma listing_state: "snd (get_registered_feeders py_str st) = st"
  by (simp add: get_registered_feeders_eq split: sum.split)

text \<open>
  C9. \<^verbatim>\<open>get_registered_feeders\<close>, \<^verbatim>\<open>get_feeder_health\<close> and \<^verbatim>\<open>get_feeder_alerts\<close>
  return the state they were given (the dictionary and the record of file writes), for
  every argument and every state, whether they return a success, an error result, or let
  an exception escape.
\<close>

theorem read_operations_keep_state:
  "snd (get_registered_feeders py_str st) = st \<and>
   snd (get_feeder_health fid st) = st \<and>
   snd (get_feeder_alerts fid st) = st"
  by (simp add: listing_state health_state alerts_state)

theorem read_operations_keep_state_witness:
  "snd (get_registered_feeders (\<lambda>v. [])
          \<lparr>memory = [''all_feeders'' \<mapsto> JInt 7], file_dumps = [Map.empty]\<rparr>)
     = \<lparr>memory = [''all_feeders'' \<mapsto> JInt 7], file_dumps = [Map.empty]\<rparr> \<and>
   fst (get_registered_feeders (\<lambda>v. [])
          \<lparr>memory = [''all_feeders'' \<mapsto> JInt 7], file_dumps = [Map.empty]\<rparr>)
     = Inl TypeError \<and>
   snd (get_feeder_health ''f1'' \<lparr>memory = [''all_feeders'' \<mapsto> JInt 7], file_dumps = [Map.empty]\<rparr>)
     = \<lparr>memory = [''all_feeders'' \<mapsto> JInt 7], file_dumps = [Map.empty]\<rparr> \<and>
   snd (get_feeder_alerts ''f1'' \<lparr>memory = [''all_feeders'' \<mapsto> JInt 7], file_dumps = [Map.empty]\<rparr>)
     = \<lparr>memory = [''all_feeders'' \<mapsto> JInt 7], file_dumps = [Map.empty]\<rparr>"
  using read_operations_keep_state [of "\<lambda>v. []"
      "\<lparr>memory = [''all_feeders'' \<mapsto> JInt 7], file_dumps = [Map.empty]\<rparr>" "''f1''"]
  by (simp add: eval_defs)

section \<open>Registering an id that exists\<close>

text \<open>The result for an id that exists, and the record of a feeder, written out.\<close>

lemma already_exists_result:
  "error_result (already_exists_message fid) =
     JObj [(''status'', JStr ''error''),
           (''error_message'',
            JStr (''Feeder ID '' @ [CHR 0x27] @ fid @ [CHR 0x27] @ '' already exists.''))]"
  by (simp add: error_result_def already_exists_message_def)

lemma to_dict_fields:
  "to_dict \<lparr>feeder_id = i, name = n, location = l, configuration = c\<rparr> =
     JObj [(''feeder_id'', i), (''name'', n), (''location'', l), (''configuration'', c)]"
  by (simp add: to_dict_def)

lemma register_existing:
  "get_feeder_memory_key fid \<in> dom (memory st) \<Longrightarrow>
     register_feeder fid n l c st = (Inr (error_result (already_exists_message fid)), st)"
  by (simp add: register_feeder_def)

lemma register_writes_record:
  "get_feeder_memory_key fid \<in> dom (memory (snd (register_feeder fid n l c st)))"
  by (auto simp: register_feeder_def Let_def save_memory_def split: json.split)

lemma register_twice:
  "register_feeder fid n' l' c' (snd (register_feeder fid n l c st))
     = (Inr (error_result (already_exists_message fid)), snd (register_feeder fid n l c st))"
  by (rule register_existing [OF register_writes_record])

lemma register_twice_record:
  "get_feeder_memory_key fid \<notin> dom (memory st) \<Longrightarrow>
     memory (snd (register_feeder fid n' l' c' (snd (register_feeder fid n l c st))))
        (get_feeder_memory_key fid)
      = Some (to_dict \<lparr>feeder_id = JStr fid, name = JStr n, location = JStr l, configuration = c\<rparr>)"
  unfolding register_twice snd_conv
  by (auto simp: register_feeder_def Let_def save_memory_def split: json.split)

text \<open>
  C2. In every state whose dictionary has the key \<^verbatim>\<open>feeder:<id>\<close>, \<^verbatim>\<open>register_feeder\<close>
  returns the dictionary with \<^verbatim>\<open>status\<close> \<^verbatim>\<open>error\<close> and the \<^verbatim>\<open>error_message\<close>
  \<^verbatim>\<open>Feeder ID '<id>' already exists.\<close> (the quote is the character \<open>0x27\<close>), and
  the state is unchanged: no key is written and no file write is made. So a second
  registration of an id, after any first one and with any fields, is rejected and changes
  nothing, and the record under \<^verbatim>\<open>feeder:<id>\<close> is still the one of the first call.
\<close>

theorem register_existing_rejected:
  "(get_feeder_memory_key fid \<in> dom (memory st) \<longrightarrow>
      register_feeder fid n l c st =
        (Inr (JObj [(''status'', JStr ''error''),
                    (''error_message'',
                     JStr (''Feeder ID '' @ [CHR 0x27] @ fid @ [CHR 0x27] @ '' already exists.''))]),
         st)) \<and>
   register_feeder fid n' l' c' (snd (register_feeder fid n l c st))
     = (Inr (JObj [(''status'', JStr ''error''),
                   (''error_message'',
                    JStr (''Feeder ID '' @ [CHR 0x27] @ fid @ [CHR 0x27] @ '' already exists.''))]),
        snd (register_feeder fid n l c st)) \<and>
   (get_feeder_memory_key fid \<notin> dom (memory st) \<longrightarrow>
      memory (snd (register_feeder fid n' l' c' (snd (register_feeder fid n l c st))))
         (get_feeder_memory_key fid)
       = Some (JObj [(''feeder_id'', JStr fid), (''name'', JStr n),
                     (''location'', JStr l), (''configuration'', c)]))"
  unfolding already_exists_result [symmetric] to_dict_fields [symmetric]
  by (intro conjI impI register_existing register_twice register_twice_record)

theorem register_existing_rejected_witness:
  "get_feeder_memory_key ''f1'' \<notin> dom (memory empty_state) \<and>
   get_feeder_memory_key ''f1'' \<in>
     dom (memory (snd (register_feeder ''f1'' ''Feeder One'' ''Loc A'' (JObj [(''rate'', JInt 5)]) empty_state))) \<and>
   register_feeder ''f1'' ''Feeder Two'' ''Loc B'' JNull
       (snd (register_feeder ''f1'' ''Feeder One'' ''Loc A'' (JObj [(''rate'', JInt 5)]) empty_state))
     = (Inr (JObj [(''status'', JStr ''error''),
                   (''error_message'',
                    JStr (''Feeder ID '' @ [CHR 0x27] @ ''f1'' @ [CHR 0x27] @ '' already exists.''))]),
        snd (register_feeder ''f1'' ''Feeder One'' ''Loc A'' (JObj [(''rate'', JInt 5)]) empty_state)) \<and>
   snd (register_feeder ''f1'' ''Feeder One'' ''Loc A'' (JObj [(''rate'', JInt 5)]) empty_state)
     = \<lparr>memory =
          [''feeder:f1'' \<mapsto>
             JObj [(''feeder_id'', JStr ''f1''), (''name'', JStr ''Feeder One''),
                   (''location'', JStr ''Loc A''), (''configuration'', JObj [(''rate'', JInt 5)])],
           ''all_feeders'' \<mapsto> JList [JStr ''f1'']],
        file_dumps =
          [[''feeder:f1'' \<mapsto>
              JObj [(''feeder_id'', JStr ''f1''), (''name'', JStr ''Feeder One''),
                    (''location'', JStr ''Loc A''), (''configuration'', JObj [(''rate'', JInt 5)])]],
           [''feeder:f1'' \<mapsto>
              JObj [(''feeder_id'', JStr ''f1''), (''name'', JStr ''Feeder One''),
                    (''location'', JStr ''Loc A''), (''configuration'', JObj [(''rate'', JInt 5)])],
            ''all_feeders'' \<mapsto> JList [JStr ''f1'']]]\<rparr> \<and>
   memory (snd (register_feeder ''f1'' ''Feeder Two'' ''Loc B'' JNull
       (snd (register_feeder ''f1'' ''Feeder One'' ''Loc A'' (JObj [(''rate'', JInt 5)]) empty_state))))
       ''feeder:f1''
     = Some (JObj [(''feeder_id'', JStr ''f1''), (''name'', JStr ''Feeder One''),
                   (''location'', JStr ''Loc A''), (''configuration'', JObj [(''rate'', JInt 5)])]) \<and>
   memory (snd (register_feeder ''f1'' ''Feeder Two'' ''Loc B'' JNull
       (snd (register_feeder ''f1'' ''Feeder One'' ''Loc A'' (JObj [(''rate'', JInt 5)]) empty_state))))
       ''all_feeders''
     = Some (JList [JStr ''f1'']) \<and>
   fst (get_registered_feeders (\<lambda>v. []) (snd (register_feeder ''f1'' ''Feeder Two'' ''Loc B'' JNull
       (snd (register_feeder ''f1'' ''Feeder One'' ''Loc A'' (JObj [(''rate'', JInt 5)]) empty_state)))))
     = Inr (JObj [(''status'', JStr ''success''),
                  (''report'', JList
                     [JObj [(''feeder_id'', JStr ''f1''), (''name'', JStr ''Feeder One''),
                            (''location'', JStr ''Loc A''),
                            (''configuration'', JObj [(''rate'', JInt 5)])]])])"
  using register_existing_rejected [of "''f1''"
      "snd (register_feeder ''f1'' ''Feeder One'' ''Loc A'' (JObj [(''rate'', JInt 5)]) empty_state)"
      "''Feeder Two''" "''Loc B''" JNull "''Feeder Two''" "''Loc B''" JNull]
    register_existing_rejected [of "''f1''" empty_state "''Feeder One''" "''Loc A''"
      "JObj [(''rate'', JInt 5)]" "''Feeder Two''" "''Loc B''" JNull]
  by (simp add: eval_defs already_exists_message_def)

section \<open>What a registration writes\<close>

text \<open>
  C10. A successful \<^verbatim>\<open>register_feeder\<close> changes the keys \<^verbatim>\<open>feeder:<id>\<close> and
  \<^verbatim>\<open>all_feeders\<close> only: every other key keeps its value, in particular the records of
  the other feeders and every \<^verbatim>\<open>alerts:<id>\<close> entry.
\<close>

theorem register_frame:
  "register_feeder fid n l c st = (Inr (success_result r), st') \<Longrightarrow>
     (\<forall>k. k \<noteq> get_feeder_memory_key fid \<and> k \<noteq> get_all_feeders_key \<longrightarrow> memory st' k = memory st k) \<and>
     (\<forall>other. other \<noteq> fid \<longrightarrow> memory st' (get_feeder_memory_key other) = memory st (get_feeder_memory_key other)) \<and>
     (\<forall>x. memory st' (''alerts:'' @ x) = memory st (''alerts:'' @ x))"
  by (auto simp: register_feeder_def Let_def save_memory_def success_result_def error_result_def
        get_feeder_memory_key_def get_all_feeders_key_def split: json.splits if_splits)

theorem register_frame_witness:
  "register_feeder ''f2'' ''Feeder Two'' ''Loc B'' JNull
      \<lparr>memory = [''feeder:f1'' \<mapsto> JObj [(''feeder_id'', JStr ''f1'')],
                 ''alerts:f2'' \<mapsto> JList [JObj [(''level'', JStr ''warning'')]],
                 ''all_feeders'' \<mapsto> JList [JStr ''f1'']],
       file_dumps = []\<rparr>
    = (Inr (success_result (to_dict \<lparr>feeder_id = JStr ''f2'', name = JStr ''Feeder Two'',
                                     location = JStr ''Loc B'', configuration = JNull\<rparr>)),
       snd (register_feeder ''f2'' ''Feeder Two'' ''Loc B'' JNull
      \<lparr>memory = [''feeder:f1'' \<mapsto> JObj [(''feeder_id'', JStr ''f1'')],
                 ''alerts:f2'' \<mapsto> JList [JObj [(''level'', JStr ''warning'')]],
                 ''all_feeders'' \<mapsto> JList [JStr ''f1'']],
       file_dumps = []\<rparr>)) \<and>
   memory (snd (register_feeder ''f2'' ''Feeder Two'' ''Loc B'' JNull
      \<lparr>memory = [''feeder:f1'' \<mapsto> JObj [(''feeder_id'', JStr ''f1'')],
                 ''alerts:f2'' \<mapsto> JList [JObj [(''level'', JStr ''warning'')]],
                 ''all_feeders'' \<mapsto> JList [JStr ''f1'']],
       file_dumps = []\<rparr>)) (get_feeder_memory_key ''f1'')
     = Some (JObj [(''feeder_id'', JStr ''f1'')]) \<and>
   memory (snd (register_feeder ''f2'' ''Feeder Two'' ''Loc B'' JNull
      \<lparr>memory = [''feeder:f1'' \<mapsto> JObj [(''feeder_id'', JStr ''f1'')],
                 ''alerts:f2'' \<mapsto> JList [JObj [(''level'', JStr ''warning'')]],
                 ''all_feeders'' \<mapsto> JList [JStr ''f1'']],
       file_dumps = []\<rparr>)) (''alerts:'' @ ''f2'')
     = Some (JList [JObj [(''level'', JStr ''warning'')]])"
proof -
  let ?st = "\<lparr>memory = [''feeder:f1'' \<mapsto> JObj [(''feeder_id'', JStr ''f1'')],
                 ''alerts:f2'' \<mapsto> JList [JObj [(''level'', JStr ''warning'')]],
                 ''all_feeders'' \<mapsto> JList [JStr ''f1'']],
       file_dumps = []\<rparr>"
  let ?r = "to_dict \<lparr>feeder_id = JStr ''f2'', name = JStr ''Feeder Two'',
                                     location = JStr ''Loc B'', configuration = JNull\<rparr>"
  have run: "register_feeder ''f2'' ''Feeder Two'' ''Loc B'' JNull ?st
      = (Inr (success_result ?r), snd (register_feeder ''f2'' ''Feeder Two'' ''Loc B'' JNull ?st))"
    by (simp add: register_feeder_def get_feeder_memory_key_def
      get_all_feeders_key_def save_memory_def dict_get_def Let_def)
  from register_frame [OF run] have
    "memory (snd (register_feeder ''f2'' ''Feeder Two'' ''Loc B'' JNull ?st)) (get_feeder_memory_key ''f1'')
       = memory ?st (get_feeder_memory_key ''f1'')"
    "memory (snd (register_feeder ''f2'' ''Feeder Two'' ''Loc B'' JNull ?st)) (''alerts:'' @ ''f2'')
       = memory ?st (''alerts:'' @ ''f2'')"
    by simp_all
  then show ?thesis using run by (simp add: get_feeder_memory_key_def)
qed

section \<open>When the listing succeeds\<close>




section \<open>Order and content of the listing\<close>

text \<open>Records in the layout of \<^verbatim>\<open>to_dict\<close> are listed as they are stored.\<close>

lemma listed_eq_stored:
  assumes "\<forall>x \<in> set ids. \<forall>v. m (get_feeder_memory_key (format_value py_str x)) = Some v \<longrightarrow>
             (\<exists>f. v = to_dict f)"
  shows "listed_records py_str m ids = stored_records py_str m ids \<and> entries_ok py_str m ids"
  using assms
proof (induction ids)
  case Nil
  then show ?case by (simp add: listed_records_def stored_records_def entries_ok_def)
next
  case (Cons x ids)
  then have IH: "listed_records py_str m ids = stored_records py_str m ids" "entries_ok py_str m ids"
    by simp_all
  show ?case
  proof (cases "m (get_feeder_memory_key (format_value py_str x))")
    case None
    then have "record_of py_str m x = JNull" by (simp add: record_of_def dict_get_def)
    with None IH show ?thesis
      by (simp add: listed_records_def stored_records_def entries_ok_def domIff)
  next
    case (Some v)
    with Cons.prems obtain f where "v = to_dict f" by auto
    with Some have r: "record_of py_str m x = to_dict f" by (simp add: record_of_def dict_get_def)
    have "truthy (to_dict f)" "has_feeder_fields (to_dict f)"
      by (simp_all add: to_dict_def has_feeder_fields_def)
    with r Some IH show ?thesis
      by (simp add: listed_records_def stored_records_def entries_ok_def domIff four_fields_to_dict)
  qed
qed

text \<open>
  C8, amended to what the code does. When the entries of \<^verbatim>\<open>all_feeders\<close> are well formed, the
  report is the entries in their order, those with a truthy record only, each replaced by
  the four fields \<^verbatim>\<open>feeder_id\<close>, \<^verbatim>\<open>name\<close>, \<^verbatim>\<open>location\<close>, \<^verbatim>\<open>configuration\<close> of its
  stored record (\<^verbatim>\<open>None\<close> for a missing configuration, other keys dropped). When every
  existing record of an entry has the layout that \<^verbatim>\<open>to_dict\<close> writes, the report is the
  entries in order, those with an existing record only, each replaced by its stored
  record.
\<close>

theorem listing_order:
  "(index_entries (memory st) = Inr ids \<and> entries_ok py_str (memory st) ids \<longrightarrow>
      get_registered_feeders py_str st =
        (Inr (success_result (JList (listed_records py_str (memory st) ids))), st)) \<and>
   (index_entries (memory st) = Inr ids \<and>
    (\<forall>x \<in> set ids. \<forall>v. memory st (get_feeder_memory_key (format_value py_str x)) = Some v \<longrightarrow>
        (\<exists>f. v = to_dict f)) \<longrightarrow>
      get_registered_feeders py_str st =
        (Inr (success_result (JList (stored_records py_str (memory st) ids))), st))"
  using listing_ok [of st ids py_str] listed_eq_stored [of ids "memory st" py_str] by auto

theorem listing_order_witness:
  "get_registered_feeders (\<lambda>v. [])
     \<lparr>memory = [''all_feeders'' \<mapsto> JList [JStr ''f2'', JStr ''ghost'', JStr ''f1'', JStr ''f3''],
                ''feeder:f1'' \<mapsto> JObj [(''feeder_id'', JStr ''f1''), (''name'', JStr ''Feeder One''),
                                        (''location'', JStr ''Loc A'')],
                ''feeder:f2'' \<mapsto> JObj [(''location'', JStr ''Loc B''), (''name'', JStr ''Feeder Two''),
                                        (''feeder_id'', JStr ''f2''), (''configuration'', JObj [(''rate'', JInt 5)]),
                                        (''owner'', JStr ''grid'')],
                ''feeder:f3'' \<mapsto> JObj []],
      file_dumps = []\<rparr>
   = (Inr (success_result (JList
        [JObj [(''feeder_id'', JStr ''f2''), (''name'', JStr ''Feeder Two''), (''location'', JStr ''Loc B''),
               (''configuration'', JObj [(''rate'', JInt 5)])],
         JObj [(''feeder_id'', JStr ''f1''), (''name'', JStr ''Feeder One''), (''location'', JStr ''Loc A''),
               (''configuration'', JNull)]])),
      \<lparr>memory = [''all_feeders'' \<mapsto> JList [JStr ''f2'', JStr ''ghost'', JStr ''f1'', JStr ''f3''],
                ''feeder:f1'' \<mapsto> JObj [(''feeder_id'', JStr ''f1''), (''name'', JStr ''Feeder One''),
                                        (''location'', JStr ''Loc A'')],
                ''feeder:f2'' \<mapsto> JObj [(''location'', JStr ''Loc B''), (''name'', JStr ''Feeder Two''),
                                        (''feeder_id'', JStr ''f2''), (''configuration'', JObj [(''rate'', JInt 5)]),
                                        (''owner'', JStr ''grid'')],
                ''feeder:f3'' \<mapsto> JObj []],
      file_dumps = []\<rparr>) \<and>
   get_registered_feeders (\<lambda>v. [])
     \<lparr>memory = [''all_feeders'' \<mapsto> JList [JStr ''f2'', JStr ''ghost'', JStr ''f1''],
                ''feeder:f1'' \<mapsto> JObj [(''feeder_id'', JStr ''f1''), (''name'', JStr ''Feeder One''),
                                        (''location'', JStr ''Loc A''), (''configuration'', JNull)],
                ''feeder:f2'' \<mapsto> JObj [(''feeder_id'', JStr ''f2''), (''name'', JStr ''Feeder Two''),
                                        (''location'', JStr ''Loc B''),
                                        (''configuration'', JObj [(''rate'', JInt 5)])]],
      file_dumps = []\<rparr>
   = (Inr (success_result (JList
        [JObj [(''feeder_id'', JStr ''f2''), (''name'', JStr ''Feeder Two''), (''location'', JStr ''Loc B''),
               (''configuration'', JObj [(''rate'', JInt 5)])],
         JObj [(''feeder_id'', JStr ''f1''), (''name'', JStr ''Feeder One''), (''location'', JStr ''Loc A''),
               (''configuration'', JNull)]])),
      \<lparr>memory = [''all_feeders'' \<mapsto> JList [JStr ''f2'', JStr ''ghost'', JStr ''f1''],
                ''feeder:f1'' \<mapsto> JObj [(''feeder_id'', JStr ''f1''), (''name'', JStr ''Feeder One''),
                                        (''location'', JStr ''Loc A''), (''configuration'', JNull)],
                ''feeder:f2'' \<mapsto> JObj [(''feeder_id'', JStr ''f2''), (''name'', JStr ''Feeder Two''),
                                        (''location'', JStr ''Loc B''),
                                        (''configuration'', JObj [(''rate'', JInt 5)])]],
      file_dumps = []\<rparr>)"
proof -
  let ?a = "\<lparr>memory = [''all_feeders'' \<mapsto> JList [JStr ''f2'', JStr ''ghost'', JStr ''f1'', JStr ''f3''],
                ''feeder:f1'' \<mapsto> JObj [(''feeder_id'', JStr ''f1''), (''name'', JStr ''Feeder One''),
                                        (''location'', JStr ''Loc A'')],
                ''feeder:f2'' \<mapsto> JObj [(''location'', JStr ''Loc B''), (''name'', JStr ''Feeder Two''),
                                        (''feeder_id'', JStr ''f2''), (''configuration'', JObj [(''rate'', JInt 5)]),
                                        (''owner'', JStr ''grid'')],
                ''feeder:f3'' \<mapsto> JObj []],
      file_dumps = []\<rparr>"
  let ?b = "\<lparr>memory = [''all_feeders'' \<mapsto> JList [JStr ''f2'', JStr ''ghost'', JStr ''f1''],
                ''feeder:f1'' \<mapsto> JObj [(''feeder_id'', JStr ''f1''), (''name'', JStr ''Feeder One''),
                                        (''location'', JStr ''Loc A''), (''configuration'', JNull)],
                ''feeder:f2'' \<mapsto> JObj [(''feeder_id'', JStr ''f2''), (''name'', JStr ''Feeder Two''),
                                        (''location'', JStr ''Loc B''),
                                        (''configuration'', JObj [(''rate'', JInt 5)])]],
      file_dumps = []\<rparr>"
  let ?ia = "[JStr ''f2'', JStr ''ghost'', JStr ''f1'', JStr ''f3'']"
  let ?ib = "[JStr ''f2'', JStr ''ghost'', JStr ''f1'']"
  have a1: "index_entries (memory ?a) = Inr ?ia" by (simp add: eval_defs)
  have a2: "entries_ok (\<lambda>v. []) (memory ?a) ?ia" by (simp add: eval_defs)
  have a3: "listed_records (\<lambda>v. []) (memory ?a) ?ia =
        [JObj [(''feeder_id'', JStr ''f2''), (''name'', JStr ''Feeder Two''), (''location'', JStr ''Loc B''),
               (''configuration'', JObj [(''rate'', JInt 5)])],
         JObj [(''feeder_id'', JStr ''f1''), (''name'', JStr ''Feeder One''), (''location'', JStr ''Loc A''),
               (''configuration'', JNull)]]"
    by (simp add: eval_defs)
  have b1: "index_entries (memory ?b) = Inr ?ib" by (simp add: eval_defs)
  have f1: "JObj [(''feeder_id'', JStr ''f1''), (''name'', JStr ''Feeder One''),
                  (''location'', JStr ''Loc A''), (''configuration'', JNull)]
            = to_dict \<lparr>feeder_id = JStr ''f1'', name = JStr ''Feeder One'', location = JStr ''Loc A'',
                       configuration = JNull\<rparr>"
    and f2: "JObj [(''feeder_id'', JStr ''f2''), (''name'', JStr ''Feeder Two''),
                   (''location'', JStr ''Loc B''), (''configuration'', JObj [(''rate'', JInt 5)])]
            = to_dict \<lparr>feeder_id = JStr ''f2'', name = JStr ''Feeder Two'', location = JStr ''Loc B'',
                       configuration = JObj [(''rate'', JInt 5)]\<rparr>"
    by (simp_all add: to_dict_def)
  have b2: "\<forall>x \<in> set ?ib. \<forall>v. memory ?b (get_feeder_memory_key (format_value (\<lambda>v. []) x)) = Some v \<longrightarrow>
        (\<exists>f. v = to_dict f)"
    using f1 f2 by (auto simp: get_feeder_memory_key_def format_value_def)
  have b3: "stored_records (\<lambda>v. []) (memory ?b) ?ib =
        [JObj [(''feeder_id'', JStr ''f2''), (''name'', JStr ''Feeder Two''), (''location'', JStr ''Loc B''),
               (''configuration'', JObj [(''rate'', JInt 5)])],
         JObj [(''feeder_id'', JStr ''f1''), (''name'', JStr ''Feeder One''), (''location'', JStr ''Loc A''),
               (''configuration'', JNull)]]"
    by (simp add: eval_defs stored_records_def dom_def)
  from listing_order [of ?a ?ia "\<lambda>v. []"] a1 a2
  have "get_registered_feeders (\<lambda>v. []) ?a =
          (Inr (success_result (JList (listed_records (\<lambda>v. []) (memory ?a) ?ia))), ?a)"
    by blast
  moreover from listing_order [of ?b ?ib "\<lambda>v. []"] b1 b2
  have "get_registered_feeders (\<lambda>v. []) ?b =
          (Inr (success_result (JList (stored_records (\<lambda>v. []) (memory ?b) ?ib))), ?b)"
    by blast
  ultimately show ?thesis unfolding a3 b3 by blast
qed

text \<open>
  The claim as worded fails on a record stored without \<^verbatim>\<open>configuration\<close>: the listed
  record has the field, with \<^verbatim>\<open>None\<close>, and so is not the stored record.
\<close>

theorem listing_order_counterexample:
  "fst (get_registered_feeders (\<lambda>v. [])
     \<lparr>memory = [''all_feeders'' \<mapsto> JList [JStr ''f1''],
                ''feeder:f1'' \<mapsto> JObj [(''feeder_id'', JStr ''f1''), (''name'', JStr ''Feeder One''),
                                        (''location'', JStr ''Loc A'')]],
      file_dumps = []\<rparr>)
     = Inr (success_result (JList [JObj [(''feeder_id'', JStr ''f1''), (''name'', JStr ''Feeder One''),
                                        (''location'', JStr ''Loc A''), (''configuration'', JNull)]])) \<and>
   stored_records (\<lambda>v. [])
     [''all_feeders'' \<mapsto> JList [JStr ''f1''],
      ''feeder:f1'' \<mapsto> JObj [(''feeder_id'', JStr ''f1''), (''name'', JStr ''Feeder One''),
                              (''location'', JStr ''Loc A'')]]
     [JStr ''f1'']
     = [JObj [(''feeder_id'', JStr ''f1''), (''name'', JStr ''Feeder One''), (''location'', JStr ''Loc A'')]] \<and>
   fst (get_registered_feeders (\<lambda>v. [])
     \<lparr>memory = [''all_feeders'' \<mapsto> JList [JStr ''f1''],
                ''feeder:f1'' \<mapsto> JObj [(''feeder_id'', JStr ''f1''), (''name'', JStr ''Feeder One''),
                                        (''location'', JStr ''Loc A'')]],
      file_dumps = []\<rparr>)
     \<noteq> Inr (success_result (JList (stored_records (\<lambda>v. [])
     [''all_feeders'' \<mapsto> JList [JStr ''f1''],
      ''feeder:f1'' \<mapsto> JObj [(''feeder_id'', JStr ''f1''), (''name'', JStr ''Feeder One''),
                              (''location'', JStr ''Loc A'')]]
     [JStr ''f1''])))"
  by (simp add: eval_defs stored_records_def dom_def)

section \<open>Index entries without a record\<close>

text \<open>
  C5, amended to what the code does. When the list \<^verbatim>\<open>all_feeders\<close> has an entry whose
  \<^verbatim>\<open>feeder:<id>\<close> key is missing, \<^verbatim>\<open>get_registered_feeders\<close> does what it does on the
  index without that entry: the entry adds no record and raises nothing. It returns
  success, with the records of the other entries, when those entries are well formed.
\<close>

theorem dangling_entry_skipped:
  assumes "memory st get_all_feeders_key = Some (JList ids)"
    and "x \<in> set ids"
    and "get_feeder_memory_key (format_value py_str x) \<notin> dom (memory st)"
  shows "fst (get_registered_feeders py_str st) =
           fst (get_registered_feeders py_str
                  (st\<lparr>memory := (memory st)(get_all_feeders_key \<mapsto> JList (removeAll x ids))\<rparr>)) \<and>
         (entries_ok py_str (memory st) (removeAll x ids) \<longrightarrow>
            get_registered_feeders py_str st =
              (Inr (success_result (JList (listed_records py_str (memory st) (removeAll x ids)))), st))"
proof -
  from assms(3) have skip: "\<not> truthy (record_of py_str (memory st) x)"
    by (simp add: record_of_def dict_get_def domIff)
  from assms(1) have e: "index_entries (memory st) = Inr ids"
    by (simp add: index_entries_def dict_get_def)
  have e': "index_entries ((memory st)(get_all_feeders_key \<mapsto> JList (removeAll x ids))) = Inr (removeAll x ids)"
    by (simp add: index_entries_def dict_get_def)
  have loop: "feeders_loop py_str (memory st) ids [] = feeders_loop py_str (memory st) (removeAll x ids) []"
    using feeders_loop_skip [OF skip] by simp
  have first: "fst (get_registered_feeders py_str st) =
           fst (get_registered_feeders py_str
                  (st\<lparr>memory := (memory st)(get_all_feeders_key \<mapsto> JList (removeAll x ids))\<rparr>))"
    by (simp add: get_registered_feeders_eq e e' loop feeders_loop_index_update split: sum.splits)
  have second: "get_registered_feeders py_str st =
              (Inr (success_result (JList (listed_records py_str (memory st) (removeAll x ids)))), st)"
    if "entries_ok py_str (memory st) (removeAll x ids)"
    using that by (simp add: get_registered_feeders_eq e loop feeders_loop_ok)
  from first second show ?thesis by blast
qed

theorem dangling_entry_skipped_witness:
  "memory \<lparr>memory = [''all_feeders'' \<mapsto> JList [JStr ''ghost'', JStr ''f1'', JStr ''ghost''],
                    ''feeder:f1'' \<mapsto> JObj [(''feeder_id'', JStr ''f1''), (''name'', JStr ''Feeder One''),
                                            (''location'', JStr ''Loc A''), (''configuration'', JNull)]],
          file_dumps = []\<rparr> get_all_feeders_key
     = Some (JList [JStr ''ghost'', JStr ''f1'', JStr ''ghost'']) \<and>
   JStr ''ghost'' \<in> set [JStr ''ghost'', JStr ''f1'', JStr ''ghost''] \<and>
   get_feeder_memory_key (format_value (\<lambda>v. []) (JStr ''ghost'')) \<notin>
     dom (memory \<lparr>memory = [''all_feeders'' \<mapsto> JList [JStr ''ghost'', JStr ''f1'', JStr ''ghost''],
                    ''feeder:f1'' \<mapsto> JObj [(''feeder_id'', JStr ''f1''), (''name'', JStr ''Feeder One''),
                                            (''location'', JStr ''Loc A''), (''configuration'', JNull)]],
          file_dumps = []\<rparr>) \<and>
   get_registered_feeders (\<lambda>v. [])
     \<lparr>memory = [''all_feeders'' \<mapsto> JList [JStr ''ghost'', JStr ''f1'', JStr ''ghost''],
                    ''feeder:f1'' \<mapsto> JObj [(''feeder_id'', JStr ''f1''), (''name'', JStr ''Feeder One''),
                                            (''location'', JStr ''Loc A''), (''configuration'', JNull)]],
          file_dumps = []\<rparr>
     = (Inr (success_result (JList [JObj [(''feeder_id'', JStr ''f1''), (''name'', JStr ''Feeder One''),
                                         (''location'', JStr ''Loc A''), (''configuration'', JNull)]])),
        \<lparr>memory = [''all_feeders'' \<mapsto> JList [JStr ''ghost'', JStr ''f1'', JStr ''ghost''],
                    ''feeder:f1'' \<mapsto> JObj [(''feeder_id'', JStr ''f1''), (''name'', JStr ''Feeder One''),
                                            (''location'', JStr ''Loc A''), (''configuration'', JNull)]],
          file_dumps = []\<rparr>) \<and>
   fst (get_registered_feeders (\<lambda>v. [])
     \<lparr>memory = [''all_feeders'' \<mapsto> JList [JStr ''ghost'', JStr ''f1'', JStr ''ghost''],
                    ''feeder:f1'' \<mapsto> JObj [(''feeder_id'', JStr ''f1''), (''name'', JStr ''Feeder One''),
                                            (''location'', JStr ''Loc A''), (''configuration'', JNull)]],
          file_dumps = []\<rparr>)
     = fst (get_registered_feeders (\<lambda>v. [])
     \<lparr>memory = [''all_feeders'' \<mapsto> JList [JStr ''f1''],
                    ''feeder:f1'' \<mapsto> JObj [(''feeder_id'', JStr ''f1''), (''name'', JStr ''Feeder One''),
                                            (''location'', JStr ''Loc A''), (''configuration'', JNull)]],
          file_dumps = []\<rparr>)"
proof -
  let ?m = "[''all_feeders'' \<mapsto> JList [JStr ''ghost'', JStr ''f1'', JStr ''ghost''],
                    ''feeder:f1'' \<mapsto> JObj [(''feeder_id'', JStr ''f1''), (''name'', JStr ''Feeder One''),
                                            (''location'', JStr ''Loc A''), (''configuration'', JNull)]]"
  let ?st = "\<lparr>memory = ?m, file_dumps = []\<rparr>"
  have idx: "memory ?st get_all_feeders_key = Some (JList [JStr ''ghost'', JStr ''f1'', JStr ''ghost''])"
    by (simp add: get_all_feeders_key_def)
  have mem: "JStr ''ghost'' \<in> set [JStr ''ghost'', JStr ''f1'', JStr ''ghost'']"
    by simp
  have dangling: "get_feeder_memory_key (format_value (\<lambda>v. []) (JStr ''ghost'')) \<notin> dom (memory ?st)"
    by (simp add: eval_defs)
  have ok: "entries_ok (\<lambda>v. []) (memory ?st) (removeAll (JStr ''ghost'') [JStr ''ghost'', JStr ''f1'', JStr ''ghost''])"
    by (simp add: eval_defs)
  have upd: "?st\<lparr>memory := (memory ?st)(get_all_feeders_key \<mapsto>
                 JList (removeAll (JStr ''ghost'') [JStr ''ghost'', JStr ''f1'', JStr ''ghost'']))\<rparr>
             = \<lparr>memory = [''all_feeders'' \<mapsto> JList [JStr ''f1''],
                    ''feeder:f1'' \<mapsto> JObj [(''feeder_id'', JStr ''f1''), (''name'', JStr ''Feeder One''),
                                            (''location'', JStr ''Loc A''), (''configuration'', JNull)]],
          file_dumps = []\<rparr>"
    by (simp add: get_all_feeders_key_def fun_upd_twist)
  have lst: "listed_records (\<lambda>v. []) (memory ?st) (removeAll (JStr ''ghost'') [JStr ''ghost'', JStr ''f1'', JStr ''ghost''])
      = [JObj [(''feeder_id'', JStr ''f1''), (''name'', JStr ''Feeder One''),
               (''location'', JStr ''Loc A''), (''configuration'', JNull)]]"
    by (simp add: eval_defs)
  from dangling_entry_skipped [OF idx mem dangling] ok
  show ?thesis using idx mem dangling unfolding upd lst by blast
qed

text \<open>
  The claim as worded (success whenever there is such an entry) fails when another entry
  has a record without a mandatory field.
\<close>

theorem dangling_entry_counterexample:
  "memory \<lparr>memory = [''all_feeders'' \<mapsto> JList [JStr ''ghost'', JStr ''f1''],
                    ''feeder:f1'' \<mapsto> JObj [(''feeder_id'', JStr ''f1''), (''name'', JStr ''Feeder One'')]],
          file_dumps = []\<rparr> (get_feeder_memory_key ''ghost'') = None \<and>
   fst (get_registered_feeders (\<lambda>v. [])
     \<lparr>memory = [''all_feeders'' \<mapsto> JList [JStr ''ghost'', JStr ''f1''],
                ''feeder:f1'' \<mapsto> JObj [(''feeder_id'', JStr ''f1''), (''name'', JStr ''Feeder One'')]],
      file_dumps = []\<rparr>)
   = Inl (KeyError ''location'')"
  by (simp add: eval_defs)

section \<open>Registering, then listing\<close>

text \<open>A first registration of an id writes the record and appends the id to the index.\<close>

lemma register_new:
  assumes "get_feeder_memory_key fid \<notin> dom (memory st)" and "index_list (memory st) = Some ids"
  shows "fst (register_feeder fid n l c st) =
           Inr (success_result (to_dict \<lparr>feeder_id = JStr fid, name = JStr n, location = JStr l,
                                           configuration = c\<rparr>))"
    and "memory (snd (register_feeder fid n l c st)) =
           (memory st)(get_feeder_memory_key fid \<mapsto>
                         to_dict \<lparr>feeder_id = JStr fid, name = JStr n, location = JStr l,
                                   configuration = c\<rparr>,
                       get_all_feeders_key \<mapsto> JList (ids @ [JStr fid]))"
  using assms
  by (auto simp: register_feeder_def Let_def save_memory_def index_list_def dict_get_def
      split: json.splits option.splits)

lemma record_of_after_register:
  "record_of py_str (m(get_feeder_memory_key fid \<mapsto> r)) x =
     (if format_value py_str x = fid then r else record_of py_str m x)"
  by (simp add: record_of_def dict_get_def)

lemma entries_ok_after_register:
  assumes "entries_ok py_str m ids" and "has_feeder_fields r"
  shows "entries_ok py_str (m(get_feeder_memory_key fid \<mapsto> r, get_all_feeders_key \<mapsto> v))
           (ids @ [JStr fid])"
  using assms
  by (auto simp: entries_ok_def list_all_iff record_of_after_register format_value_def)

text \<open>
  C1, amended to what the code does. In a state where \<^verbatim>\<open>feeder:<id>\<close> is not a key, where
  \<^verbatim>\<open>all_feeders\<close> is missing, \<^verbatim>\<open>null\<close> or a list, and where the entries of that list
  are well formed, \<^verbatim>\<open>register_feeder\<close> returns success with the record of the four
  given values, and \<^verbatim>\<open>get_registered_feeders\<close> called next returns success with a
  report that contains this record.
\<close>

theorem register_then_list:
  assumes "get_feeder_memory_key fid \<notin> dom (memory st)"
    and "index_list (memory st) = Some ids"
    and "entries_ok py_str (memory st) ids"
  shows "\<exists>st' r.
           register_feeder fid n l c st =
             (Inr (success_result (JObj [(''feeder_id'', JStr fid), (''name'', JStr n),
                                        (''location'', JStr l), (''configuration'', c)])), st') \<and>
           get_registered_feeders py_str st' = (Inr (success_result (JList r)), st') \<and>
           JObj [(''feeder_id'', JStr fid), (''name'', JStr n),
                 (''location'', JStr l), (''configuration'', c)] \<in> set r"
proof -
  let ?rec = "to_dict \<lparr>feeder_id = JStr fid, name = JStr n, location = JStr l, configuration = c\<rparr>"
  let ?st' = "snd (register_feeder fid n l c st)"
  let ?ids' = "ids @ [JStr fid]"
  have rec: "?rec = JObj [(''feeder_id'', JStr fid), (''name'', JStr n),
                          (''location'', JStr l), (''configuration'', c)]"
    by (simp add: to_dict_def)
  have fields: "has_feeder_fields ?rec" and true: "truthy ?rec"
    by (simp_all add: to_dict_def has_feeder_fields_def)
  note reg = register_new [OF assms(1,2), of n l c]
  have run: "register_feeder fid n l c st = (Inr (success_result ?rec), ?st')"
    using reg(1) by (simp add: prod_eq_iff)
  have entries: "index_entries (memory ?st') = Inr ?ids'"
    by (simp add: reg(2) index_entries_def dict_get_def)
  have ok: "entries_ok py_str (memory ?st') ?ids'"
    unfolding reg(2) by (rule entries_ok_after_register [OF assms(3) fields])
  have lst: "get_registered_feeders py_str ?st' =
               (Inr (success_result (JList (listed_records py_str (memory ?st') ?ids'))), ?st')"
    by (rule listing_ok [OF entries ok])
  have "record_of py_str (memory ?st') (JStr fid) = ?rec"
    by (simp add: reg(2) record_of_after_register format_value_def)
  with true have "?rec \<in> set (listed_records py_str (memory ?st') ?ids')"
    by (simp add: listed_records_def four_fields_to_dict image_iff
        )
  with run lst show ?thesis unfolding rec by blast
qed

theorem register_then_list_witness:
  "get_feeder_memory_key ''f1'' \<notin>
     dom (memory \<lparr>memory = [''all_feeders'' \<mapsto> JList [JStr ''f0'', JStr ''ghost''],
                           ''feeder:f0'' \<mapsto> JObj [(''name'', JStr ''Feeder Zero''),
                                                   (''feeder_id'', JStr ''f0''), (''location'', JStr ''Loc Z'')]],
                 file_dumps = []\<rparr>) \<and>
   (\<exists>st'. register_feeder ''f1'' ''Feeder One'' ''Loc A'' (JObj [(''rate'', JInt 5)])
          \<lparr>memory = [''all_feeders'' \<mapsto> JList [JStr ''f0'', JStr ''ghost''],
                     ''feeder:f0'' \<mapsto> JObj [(''name'', JStr ''Feeder Zero''),
                                             (''feeder_id'', JStr ''f0''), (''location'', JStr ''Loc Z'')]],
           file_dumps = []\<rparr>
      = (Inr (success_result (JObj [(''feeder_id'', JStr ''f1''), (''name'', JStr ''Feeder One''),
                                   (''location'', JStr ''Loc A''),
                                   (''configuration'', JObj [(''rate'', JInt 5)])])), st') \<and>
      get_registered_feeders (\<lambda>v. []) st'
      = (Inr (success_result (JList
           [JObj [(''feeder_id'', JStr ''f0''), (''name'', JStr ''Feeder Zero''),
                  (''location'', JStr ''Loc Z''), (''configuration'', JNull)],
            JObj [(''feeder_id'', JStr ''f1''), (''name'', JStr ''Feeder One''),
                  (''location'', JStr ''Loc A''),
                  (''configuration'', JObj [(''rate'', JInt 5)])]])), st'))"
proof -
  let ?st = "\<lparr>memory = [''all_feeders'' \<mapsto> JList [JStr ''f0'', JStr ''ghost''],
                     ''feeder:f0'' \<mapsto> JObj [(''name'', JStr ''Feeder Zero''),
                                             (''feeder_id'', JStr ''f0''), (''location'', JStr ''Loc Z'')]],
           file_dumps = []\<rparr>"
  have new: "get_feeder_memory_key ''f1'' \<notin> dom (memory ?st)"
    by (simp add: get_feeder_memory_key_def)
  have idx: "index_list (memory ?st) = Some [JStr ''f0'', JStr ''ghost'']"
    by (simp add: eval_defs)
  have ok: "entries_ok (\<lambda>v. []) (memory ?st) [JStr ''f0'', JStr ''ghost'']"
    by (simp add: eval_defs)
  from register_then_list [OF new idx ok, of "''Feeder One''" "''Loc A''" "JObj [(''rate'', JInt 5)]"]
  obtain st' r where
    run: "register_feeder ''f1'' ''Feeder One'' ''Loc A'' (JObj [(''rate'', JInt 5)]) ?st
      = (Inr (success_result (JObj [(''feeder_id'', JStr ''f1''), (''name'', JStr ''Feeder One''),
                                   (''location'', JStr ''Loc A''),
                                   (''configuration'', JObj [(''rate'', JInt 5)])])), st')"
    and "get_registered_feeders (\<lambda>v. []) st' = (Inr (success_result (JList r)), st')"
    by blast
  from run have st': "st' = snd (register_feeder ''f1'' ''Feeder One'' ''Loc A'' (JObj [(''rate'', JInt 5)]) ?st)"
    by simp
  have "get_registered_feeders (\<lambda>v. []) st'
      = (Inr (success_result (JList
           [JObj [(''feeder_id'', JStr ''f0''), (''name'', JStr ''Feeder Zero''),
                  (''location'', JStr ''Loc Z''), (''configuration'', JNull)],
            JObj [(''feeder_id'', JStr ''f1''), (''name'', JStr ''Feeder One''),
                  (''location'', JStr ''Loc A''),
                  (''configuration'', JObj [(''rate'', JInt 5)])]])), st')"
    unfolding st' by (simp add: eval_defs)
  with run new show ?thesis by blast
qed

text \<open>
  Without the condition on the store the round trip fails: the registration succeeds, and
  the listing then raises on an older record that lacks a mandatory field.
\<close>

theorem register_then_list_counterexample:
  "get_feeder_memory_key ''f1'' \<notin>
     dom (memory \<lparr>memory = [''all_feeders'' \<mapsto> JList [JStr ''f0''],
                           ''feeder:f0'' \<mapsto> JObj [(''name'', JStr ''Feeder Zero'')]],
                 file_dumps = []\<rparr>) \<and>
   fst (register_feeder ''f1'' ''Feeder One'' ''Loc A'' JNull
          \<lparr>memory = [''all_feeders'' \<mapsto> JList [JStr ''f0''],
                     ''feeder:f0'' \<mapsto> JObj [(''name'', JStr ''Feeder Zero'')]],
           file_dumps = []\<rparr>)
     = Inr (success_result (JObj [(''feeder_id'', JStr ''f1''), (''name'', JStr ''Feeder One''),
                                  (''location'', JStr ''Loc A''), (''configuration'', JNull)])) \<and>
   fst (get_registered_feeders (\<lambda>v. [])
          (snd (register_feeder ''f1'' ''Feeder One'' ''Loc A'' JNull
                  \<lparr>memory = [''all_feeders'' \<mapsto> JList [JStr ''f0''],
                             ''feeder:f0'' \<mapsto> JObj [(''name'', JStr ''Feeder Zero'')]],
                   file_dumps = []\<rparr>)))
     = Inl (KeyError ''feeder_id'')"
  by (simp add: eval_defs)

section \<open>The index of a registry history\<close>

text \<open>A registration keeps the shape of a store that only the registry has written.\<close>

lemma register_keeps_inv:
  assumes "registry_inv st"
  shows "registry_inv (snd (register_feeder fid n l c st))"
proof (cases "get_feeder_memory_key fid \<in> dom (memory st)")
  case True
  with assms show ?thesis by (simp add: register_feeder_def)
next
  case False
  from assms obtain ids where
    idx: "memory st get_all_feeders_key = None \<and> ids = [] \<or>
          memory st get_all_feeders_key = Some (JList (map JStr ids))"
    and dist: "distinct ids"
    and recs: "\<forall>i \<in> set ids. \<exists>n l c. memory st (get_feeder_memory_key i) =
                 Some (to_dict \<lparr>feeder_id = JStr i, name = JStr n, location = JStr l,
                                configuration = c\<rparr>)"
    unfolding registry_inv_def by blast
  from idx have il: "index_list (memory st) = Some (map JStr ids)"
    by (auto simp: index_list_def dict_get_def)
  note reg = register_new [OF False il, of n l c]
  from False recs have new: "fid \<notin> set ids" by (auto simp: domIff)
  show ?thesis
    unfolding registry_inv_def reg(2)
  proof (intro exI [of _ "ids @ [fid]"] conjI ballI)
    show "distinct (ids @ [fid])" using dist new by simp
  next
    fix i assume "i \<in> set (ids @ [fid])"
    then show "\<exists>n' l' c'. ((memory st)(get_feeder_memory_key fid \<mapsto>
            to_dict \<lparr>feeder_id = JStr fid, name = JStr n, location = JStr l, configuration = c\<rparr>,
            get_all_feeders_key \<mapsto> JList (map JStr ids @ [JStr fid]))) (get_feeder_memory_key i) =
          Some (to_dict \<lparr>feeder_id = JStr i, name = JStr n', location = JStr l', configuration = c'\<rparr>)"
      using recs new by (cases "i = fid") auto
  qed simp
qed

lemma reachable_inv: "reachable st \<Longrightarrow> registry_inv st"
proof (induction rule: reachable.induct)
  case start
  show ?case by (simp add: registry_inv_def empty_state_def)
next
  case (after_register st fid n l c)
  then show ?case by (simp add: register_keeps_inv)
qed (simp_all add: health_state alerts_state listing_state)

text \<open>
  C6. In every state that the registry operations build from the empty store, the list
  \<^verbatim>\<open>all_feeders\<close> (if the key exists, it is a list) has no id twice.
\<close>

theorem index_has_no_duplicates:
  "reachable st \<Longrightarrow>
     memory st get_all_feeders_key = None \<or>
     (\<exists>ids. memory st get_all_feeders_key = Some (JList ids) \<and> distinct ids)"
proof -
  assume "reachable st"
  then have "registry_inv st" by (rule reachable_inv)
  then obtain ids where
    "memory st get_all_feeders_key = None \<and> ids = [] \<or>
     memory st get_all_feeders_key = Some (JList (map JStr ids))" and "distinct ids"
    unfolding registry_inv_def by blast
  moreover have "distinct (map JStr ids)" if "distinct ids"
    using that by (simp add: distinct_map inj_on_def)
  ultimately show ?thesis by blast
qed

theorem index_has_no_duplicates_witness:
  "reachable
     (snd (register_feeder ''f2'' ''Feeder Two'' ''Loc B'' JNull
        (snd (register_feeder ''f1'' ''Again'' ''Loc C'' JNull
           (snd (register_feeder ''f1'' ''Feeder One'' ''Loc A'' (JObj [(''rate'', JInt 5)])
              empty_state)))))) \<and>
   memory
     (snd (register_feeder ''f2'' ''Feeder Two'' ''Loc B'' JNull
        (snd (register_feeder ''f1'' ''Again'' ''Loc C'' JNull
           (snd (register_feeder ''f1'' ''Feeder One'' ''Loc A'' (JObj [(''rate'', JInt 5)])
              empty_state)))))) get_all_feeders_key
     = Some (JList [JStr ''f1'', JStr ''f2'']) \<and>
   distinct [JStr ''f1'', JStr ''f2'']"
proof -
  let ?st = "snd (register_feeder ''f2'' ''Feeder Two'' ''Loc B'' JNull
        (snd (register_feeder ''f1'' ''Again'' ''Loc C'' JNull
           (snd (register_feeder ''f1'' ''Feeder One'' ''Loc A'' (JObj [(''rate'', JInt 5)])
              empty_state)))))"
  have r: "reachable ?st"
    by (intro reachable.intros)
  have m: "memory ?st get_all_feeders_key = Some (JList [JStr ''f1'', JStr ''f2''])"
    by (simp add: eval_defs)
  from index_has_no_duplicates [OF r] m have "distinct [JStr ''f1'', JStr ''f2'']"
    by simp
  with r m show ?thesis by blast
qed

text \<open>
  Such a state also meets the conditions of the results on listing above: its index is
  missing or a list, with well-formed entries.
\<close>

lemma reachable_entries_ok:
  assumes "reachable st"
  shows "\<exists>ids. index_list (memory st) = Some ids \<and> entries_ok py_str (memory st) ids"
proof -
  from assms have "registry_inv st" by (rule reachable_inv)
  then obtain ids where
    idx: "memory st get_all_feeders_key = None \<and> ids = [] \<or>
          memory st get_all_feeders_key = Some (JList (map JStr ids))"
    and recs: "\<forall>i \<in> set ids. \<exists>n l c. memory st (get_feeder_memory_key i) =
                 Some (to_dict \<lparr>feeder_id = JStr i, name = JStr n, location = JStr l,
                                configuration = c\<rparr>)"
    unfolding registry_inv_def by blast
  from idx have "index_list (memory st) = Some (map JStr ids)"
    by (auto simp: index_list_def dict_get_def)
  moreover have "entries_ok py_str (memory st) (map JStr ids)"
    unfolding entries_ok_def list_all_iff
  proof
    fix x assume "x \<in> set (map JStr ids)"
    then obtain i where i: "i \<in> set ids" "x = JStr i" by auto
    with recs obtain n l c where "memory st (get_feeder_memory_key i) =
        Some (to_dict \<lparr>feeder_id = JStr i, name = JStr n, location = JStr l, configuration = c\<rparr>)"
      by blast
    with i have "has_feeder_fields (record_of py_str (memory st) x)"
      by (simp add: record_of_def dict_get_def format_value_def to_dict_def has_feeder_fields_def)
    then show "\<not> truthy (record_of py_str (memory st) x) \<or> has_feeder_fields (record_of py_str (memory st) x)"
      by simp
  qed
  ultimately show ?thesis by blast
qed

end
